theory Spec2Isabelle
  imports Main "HOL-Library.AList"
begin

section \<open>Decoded JSON values and the Python operations the client applies to them\<close>

text \<open>
  The client works on whatever \<^verbatim>\<open>response.json()\<close> returns: nested Python values
  built from \<^verbatim>\<open>None\<close>, booleans, numbers, strings, lists and dicts. A dict keeps its
  insertion order and has one entry per key, so it is an association list; a lookup reads
  the entry of the key. JSON numbers are carried as integers: the client never computes
  with a number, it only tests, stores and formats values.
\<close>

datatype json =
    JNull
  | JBool bool
  | JNum int
  | JStr string
  | JArr "json list"
  | JObj "(string \<times> json) list"

type_synonym py_dict = "(string \<times> json) list"

text \<open>The exceptions that can leave the code: the two that the built-in operations below
  raise, and the two that the library raises where it raises neither a
  \<^verbatim>\<open>RequestException\<close> nor a \<^verbatim>\<open>JSONDecodeError\<close> (a body nested too deep, a number
  with too many digits, a parameter that cannot be encoded).\<close>

datatype py_exn = AttributeError | TypeError | RecursionError | ValueError

text \<open>\<^verbatim>\<open>d.get(k, dflt)\<close> on a dict: the stored value when the key is there (also when the
  stored value is \<^verbatim>\<open>None\<close>), the default only when the key is absent.\<close>

definition dict_get :: "py_dict \<Rightarrow> string \<Rightarrow> json \<Rightarrow> json" where
  "dict_get d k dflt = (case map_of d k of None \<Rightarrow> dflt | Some v \<Rightarrow> v)"

text \<open>\<^verbatim>\<open>x.get(k, dflt)\<close> on any decoded value: only a dict has the method.\<close>

fun py_get :: "json \<Rightarrow> string \<Rightarrow> json \<Rightarrow> py_exn + json" where
  "py_get (JObj d) k dflt = Inr (dict_get d k dflt)"
| "py_get JNull k dflt = Inl AttributeError"
| "py_get (JBool b) k dflt = Inl AttributeError"
| "py_get (JNum n) k dflt = Inl AttributeError"
| "py_get (JStr s) k dflt = Inl AttributeError"
| "py_get (JArr xs) k dflt = Inl AttributeError"

text \<open>Iterating a value (\<^verbatim>\<open>for x in v\<close>): a list gives its elements, a string its
  characters as one-character strings, a dict its keys; nothing else is iterable.\<close>

fun py_iter :: "json \<Rightarrow> py_exn + json list" where
  "py_iter (JArr xs) = Inr xs"
| "py_iter (JStr s) = Inr (map (\<lambda>c. JStr [c]) s)"
| "py_iter (JObj d) = Inr (map (\<lambda>kv. JStr (fst kv)) d)"
| "py_iter JNull = Inl TypeError"
| "py_iter (JBool b) = Inl TypeError"
| "py_iter (JNum n) = Inl TypeError"

text \<open>\<^verbatim>\<open>len(v)\<close>: defined for lists, strings and dicts only.\<close>

fun py_len :: "json \<Rightarrow> py_exn + nat" where
  "py_len (JArr xs) = Inr (length xs)"
| "py_len (JStr s) = Inr (length s)"
| "py_len (JObj d) = Inr (length d)"
| "py_len JNull = Inl TypeError"
| "py_len (JBool b) = Inl TypeError"
| "py_len (JNum n) = Inl TypeError"

text \<open>Truth value of a decoded value, as \<^verbatim>\<open>if v:\<close> tests it.\<close>

fun truthy :: "json \<Rightarrow> bool" where
  "truthy JNull = False"
| "truthy (JBool b) = b"
| "truthy (JNum n) = (n \<noteq> 0)"
| "truthy (JStr s) = (s \<noteq> [])"
| "truthy (JArr xs) = (xs \<noteq> [])"
| "truthy (JObj d) = (d \<noteq> [])"

text \<open>A replacement field of an f-string: a string is inserted as it is; any other value
  is inserted as Python's built-in \<^verbatim>\<open>str()\<close> prints it, which is not code of this
  repository and is a parameter \<open>fmt\<close> of the model.\<close>

definition py_format :: "(json \<Rightarrow> string) \<Rightarrow> json \<Rightarrow> string" where
  "py_format fmt v = (case v of JStr s \<Rightarrow> s | _ \<Rightarrow> fmt v)"

text \<open>Sequencing of steps that may raise: the first exception ends the computation.\<close>

definition bind :: "py_exn + 'a \<Rightarrow> ('a \<Rightarrow> py_exn + 'b) \<Rightarrow> py_exn + 'b" where
  "bind m f = (case m of Inl e \<Rightarrow> Inl e | Inr x \<Rightarrow> f x)"

text \<open>A list comprehension \<^verbatim>\<open>[f(x) for x in xs]\<close> whose body may raise.\<close>

fun comprehension :: "('a \<Rightarrow> py_exn + 'b) \<Rightarrow> 'a list \<Rightarrow> py_exn + 'b list" where
  "comprehension f [] = Inr []"
| "comprehension f (x # xs) =
     bind (f x) (\<lambda>y. bind (comprehension f xs) (\<lambda>ys. Inr (y # ys)))"

section \<open>The record projector\<close>

definition not_available :: json where
  "not_available = JStr ''Not Available''"

definition n_a :: json where
  "n_a = JStr ''N/A''"

text \<open>One entry of the locations comprehension:
  \<^verbatim>\<open>f"{loc.get('city', 'N/A')}, {loc.get('country', 'N/A')}"\<close>.\<close>

definition location_string :: "(json \<Rightarrow> string) \<Rightarrow> json \<Rightarrow> py_exn + json" where
  "location_string fmt loc =
     bind (py_get loc ''city'' n_a) (\<lambda>city.
     bind (py_get loc ''country'' n_a) (\<lambda>country.
     Inr (JStr (py_format fmt city @ '', '' @ py_format fmt country))))"

text \<open>The body of the \<^verbatim>\<open>try\<close> block of \<^verbatim>\<open>_extract_study_data\<close>, statement by
  statement.\<close>

definition extract_body :: "(json \<Rightarrow> string) \<Rightarrow> json \<Rightarrow> py_exn + py_dict" where
  "extract_body fmt study_dict =
     bind (py_get study_dict ''protocolSection'' (JObj [])) (\<lambda>protocol.
     bind (py_get protocol ''identificationModule'' (JObj [])) (\<lambda>id_module.
     bind (py_get id_module ''nctId'' not_available) (\<lambda>nct_id.
     bind (py_get id_module ''briefTitle'' not_available) (\<lambda>title.
     bind (py_get protocol ''statusModule'' (JObj [])) (\<lambda>status_module.
     bind (py_get status_module ''overallStatus'' not_available) (\<lambda>status.
     bind (py_get status_module ''startDateStruct'' (JObj [])) (\<lambda>start_struct.
     bind (py_get start_struct ''date'' not_available) (\<lambda>start_date.
     bind (py_get status_module ''completionDateStruct'' (JObj [])) (\<lambda>completion_struct.
     bind (py_get completion_struct ''date'' not_available) (\<lambda>completion_date.
     bind (py_get protocol ''designModule'' (JObj [])) (\<lambda>design_module.
     bind (py_get design_module ''phases'' (JArr [])) (\<lambda>phases.
     bind (py_get design_module ''studyType'' not_available) (\<lambda>study_type.
     bind (py_get design_module ''enrollmentInfo'' (JObj [])) (\<lambda>enrollment_info.
     bind (py_get enrollment_info ''count'' JNull) (\<lambda>enrollment.
     bind (py_get protocol ''conditionsModule'' (JObj [])) (\<lambda>cond_module.
     bind (py_get cond_module ''conditions'' (JArr [])) (\<lambda>conditions.
     bind (py_get cond_module ''keywords'' (JArr [])) (\<lambda>keywords.
     bind (py_get protocol ''eligibilityModule'' (JObj [])) (\<lambda>elig_module.
     bind (py_get elig_module ''eligibilityCriteria'' not_available) (\<lambda>eligibility.
     bind (py_get protocol ''armsInterventionsModule'' (JObj [])) (\<lambda>interv_module.
     bind (py_get interv_module ''interventions'' (JArr [])) (\<lambda>interventions_list.
     bind (py_iter interventions_list) (\<lambda>interventions.
     bind (comprehension (\<lambda>interv. py_get interv ''name'' n_a) interventions) (\<lambda>intervention_names.
     bind (py_get protocol ''descriptionModule'' (JObj [])) (\<lambda>desc_module.
     bind (py_get desc_module ''briefSummary'' not_available) (\<lambda>brief_summary.
     bind (py_get protocol ''outcomesModule'' (JObj [])) (\<lambda>outcome_module.
     bind (py_get outcome_module ''primaryOutcomes'' (JArr [])) (\<lambda>primary_outcomes_list.
     bind (py_iter primary_outcomes_list) (\<lambda>primary_outcomes.
     bind (comprehension (\<lambda>outcome. py_get outcome ''measure'' n_a) primary_outcomes)
       (\<lambda>primary_outcome_measures.
     bind (py_get protocol ''contactsLocationsModule'' (JObj [])) (\<lambda>contact_loc_module.
     bind (py_get contact_loc_module ''locations'' (JArr [])) (\<lambda>locations_list.
     bind (py_iter locations_list) (\<lambda>locations.
     bind (comprehension (location_string fmt) locations) (\<lambda>location_info.
     Inr [(''NCT ID'', nct_id), (''Title'', title), (''Status'', status), (''Phases'', phases),
          (''Conditions'', conditions), (''Keywords'', keywords), (''Study Type'', study_type),
          (''Enrollment'', enrollment), (''Interventions'', JArr intervention_names),
          (''Brief Summary'', brief_summary),
          (''Primary Outcome Measures'', JArr primary_outcome_measures),
          (''Eligibility Criteria'', eligibility), (''Start Date'', start_date),
          (''Completion Date'', completion_date),
          (''Locations'', JArr location_info)]))))))))))))))))))))))))))))))))))"

text \<open>\<^verbatim>\<open>_extract_study_data\<close>: the \<^verbatim>\<open>except Exception\<close> clause turns every exception of
  the body into the result \<^verbatim>\<open>None\<close>.\<close>

definition extract_study_data :: "(json \<Rightarrow> string) \<Rightarrow> json \<Rightarrow> py_dict option" where
  "extract_study_data fmt study_dict =
     (case extract_body fmt study_dict of Inl e \<Rightarrow> None | Inr extracted_info \<Rightarrow> Some extracted_info)"

section \<open>The query runner\<close>

text \<open>
  What one \<^verbatim>\<open>requests.get\<close> call can produce: the call raises for a connection error
  or a timeout; or it raises an exception that is not a \<^verbatim>\<open>RequestException\<close> (a
  parameter that cannot be encoded); or it returns a response with a status code and a
  body. The body is kept
  as what \<^verbatim>\<open>response.json()\<close> makes of it: the decoded value; or the decoder rejects
  the text as malformed and \<^verbatim>\<open>JSONDecodeError\<close> is raised; or the decoder raises another
  exception, which \<^verbatim>\<open>response.json()\<close> passes on as it is.
\<close>

datatype body =
    Decoded json
  | NotJSON
  | DecoderRaises py_exn

datatype http_result =
    ConnectionError
  | Timeout
  | GetRaises py_exn
  | Response nat body

text \<open>How the \<^verbatim>\<open>try\<close> block can fail: with an exception that one of the two
  \<^verbatim>\<open>except\<close> clauses catches, or with one that neither catches.\<close>

datatype fetch_failure = RequestException | JSONDecodeError

datatype try_failure = Caught fetch_failure | Escapes py_exn

text \<open>\<^verbatim>\<open>response.raise_for_status()\<close> of the requests library raises \<^verbatim>\<open>HTTPError\<close>
  for the client-error and server-error statuses, and for no other status.\<close>

definition raise_for_status :: "nat \<Rightarrow> bool" where
  "raise_for_status status_code \<longleftrightarrow> 400 \<le> status_code \<and> status_code < 600"

text \<open>The \<^verbatim>\<open>try\<close> block of the loop: the request, the status check and the decoding.
  \<open>Inl\<close> is the exception raised in the block, \<open>Inr\<close> the value of \<^verbatim>\<open>data\<close>.\<close>

fun try_request :: "http_result \<Rightarrow> try_failure + json" where
  "try_request ConnectionError = Inl (Caught RequestException)"
| "try_request Timeout = Inl (Caught RequestException)"
| "try_request (GetRaises e) = Inl (Escapes e)"
| "try_request (Response status_code body) =
     (if raise_for_status status_code then Inl (Caught RequestException)
      else case body of
             Decoded data \<Rightarrow> Inr data
           | NotJSON \<Rightarrow> Inl (Caught JSONDecodeError)
           | DecoderRaises e \<Rightarrow> Inl (Escapes e))"

text \<open>The remote service: it answers the \<open>n\<close>-th request of a run (counted from 0)
  from the query parameters sent with it.\<close>

type_synonym server = "nat \<Rightarrow> py_dict \<Rightarrow> http_result"

text \<open>
  Dicts are mutable objects, and the caller keeps a reference to the query it passes.
  The store holds the dict objects; a reference is an index into it, below its length,
  and a new object is put at the end.
\<close>

type_synonym store = "py_dict list"

record run_state =
  heap :: store
  all_extracted_studies :: "py_dict list"
  exchanges :: "(py_dict \<times> http_result) list"

text \<open>The \<^verbatim>\<open>for study_raw in current_page_studies_raw\<close> loop: a record is appended
  when \<^verbatim>\<open>_extract_study_data\<close> returned a dict that is not empty.\<close>

fun extract_each :: "(json \<Rightarrow> string) \<Rightarrow> json list \<Rightarrow> py_dict list \<Rightarrow> py_dict list" where
  "extract_each fmt [] acc = acc"
| "extract_each fmt (study_raw # rest) acc =
     (case extract_study_data fmt study_raw of
        None \<Rightarrow> extract_each fmt rest acc
      | Some extracted_data \<Rightarrow>
          if extracted_data \<noteq> [] then extract_each fmt rest (acc @ [extracted_data])
          else extract_each fmt rest acc)"

datatype signal = Continue | Break | Raise py_exn

text \<open>One pass through the body of \<^verbatim>\<open>while True\<close>, after the page limit test:
  \<open>l\<close> is the reference held by \<^verbatim>\<open>local_query_params\<close>. Every request is logged
  with its answer. \<^verbatim>\<open>len(current_page_studies_raw)\<close> is evaluated for the progress
  message and raises for a value without a length.\<close>

definition page_body :: "(json \<Rightarrow> string) \<Rightarrow> server \<Rightarrow> nat \<Rightarrow> run_state \<Rightarrow> signal \<times> run_state" where
  "page_body fmt srv l st =
     (let params = heap st ! l;
          response = srv (length (exchanges st)) params;
          st1 = st\<lparr>exchanges := exchanges st @ [(params, response)]\<rparr>
      in case try_request response of
           Inl (Caught failure) \<Rightarrow> (Break, st1)
         | Inl (Escapes e) \<Rightarrow> (Raise e, st1)
         | Inr data \<Rightarrow>
            (case py_get data ''studies'' (JArr []) of
               Inl e \<Rightarrow> (Raise e, st1)
             | Inr current_page_studies_raw \<Rightarrow>
                (case py_len current_page_studies_raw of
                   Inl e \<Rightarrow> (Raise e, st1)
                 | Inr n \<Rightarrow>
                    (case py_iter current_page_studies_raw of
                       Inl e \<Rightarrow> (Raise e, st1)
                     | Inr studies \<Rightarrow>
                        (let st2 = st1\<lparr>all_extracted_studies :=
                                     extract_each fmt studies (all_extracted_studies st1)\<rparr>
                         in case py_get data ''nextPageToken'' JNull of
                              Inl e \<Rightarrow> (Raise e, st2)
                            | Inr next_page_token \<Rightarrow>
                                if truthy next_page_token
                                then (Continue, st2\<lparr>heap := (heap st2)
                                        [l := AList.update ''pageToken'' next_page_token (heap st2 ! l)]\<rparr>)
                                else (Break, st2))))))"

text \<open>The \<^verbatim>\<open>while True\<close> loop, entered with the value of \<^verbatim>\<open>current_page\<close>. The
  result is the exception that left the loop, if any, and the state at that point.\<close>

function fetch_loop ::
  "(json \<Rightarrow> string) \<Rightarrow> server \<Rightarrow> nat \<Rightarrow> int \<Rightarrow> int \<Rightarrow> run_state \<Rightarrow> py_exn option \<times> run_state" where
  "fetch_loop fmt srv l max_pages current_page st =
     (if current_page + 1 > max_pages then (None, st)
      else case page_body fmt srv l st of
             (Continue, st2) \<Rightarrow> fetch_loop fmt srv l max_pages (current_page + 1) st2
           | (Break, st2) \<Rightarrow> (None, st2)
           | (Raise e, st2) \<Rightarrow> (Some e, st2))"
  by pat_completeness auto
termination
  by (relation "measure (\<lambda>(fmt, srv, l, max_pages, current_page, st). nat (max_pages - current_page))")
     auto

declare fetch_loop.simps [simp del]

record fetch_result =
  returned :: "py_exn + py_dict list"
  final_heap :: store
  requests :: "(py_dict \<times> http_result) list"

text \<open>\<^verbatim>\<open>fetch_all_trials(query_params, max_pages, page_size)\<close>, run against the server
  \<open>srv\<close> in the store \<open>h\<close>, where \<open>query_params\<close> is a reference into \<open>h\<close>.
  \<^verbatim>\<open>query_params.copy()\<close> makes a new dict object with the same entries. The function
  returns its list, or an exception leaves it; \<open>requests\<close> is the log of the GET
  requests it issued, in order, each with the answer it got.\<close>

definition fetch_all_trials ::
  "(json \<Rightarrow> string) \<Rightarrow> server \<Rightarrow> store \<Rightarrow> nat \<Rightarrow> int \<Rightarrow> int \<Rightarrow> fetch_result" where
  "fetch_all_trials fmt srv h query_params max_pages page_size =
     (let local_query_params = length h;
          h1 = h @ [h ! query_params];
          h2 = h1[local_query_params :=
                    AList.update ''pageSize'' (JNum page_size) (h1 ! local_query_params)];
          (exn, st) = fetch_loop fmt srv local_query_params max_pages 0
                        \<lparr>heap = h2, all_extracted_studies = [], exchanges = []\<rparr>
      in \<lparr>returned = (case exn of None \<Rightarrow> Inr (all_extracted_studies st) | Some e \<Rightarrow> Inl e),
          final_heap = heap st,
          requests = exchanges st\<rparr>)"

section \<open>Notions of the specification\<close>

text \<open>Whether a decoded value is a mapping.\<close>

definition is_mapping :: "json \<Rightarrow> bool" where
  "is_mapping v = (case v of JObj d \<Rightarrow> True | _ \<Rightarrow> False)"

text \<open>A field is named by the path of keys that leads to it. It is missing from a record
  when some key of the path is absent from the mapping reached so far.\<close>

fun lookup_path :: "string list \<Rightarrow> json \<Rightarrow> json option" where
  "lookup_path [] v = Some v"
| "lookup_path (k # ks) (JObj d) =
     (case map_of d k of None \<Rightarrow> None | Some v \<Rightarrow> lookup_path ks v)"
| "lookup_path (k # ks) v = None"

definition field_or :: "string list \<Rightarrow> json \<Rightarrow> json \<Rightarrow> json" where
  "field_or path dflt v = (case lookup_path path v of None \<Rightarrow> dflt | Some x \<Rightarrow> x)"

text \<open>The raw records a response carries and the records extracted from them, in the
  page's order; a response that is not a decoded page carries none.\<close>

definition page_items :: "http_result \<Rightarrow> json list" where
  "page_items r =
     (case try_request r of
        Inl failure \<Rightarrow> []
      | Inr data \<Rightarrow>
         (case py_get data ''studies'' (JArr []) of
            Inl e \<Rightarrow> []
          | Inr raw \<Rightarrow> (case py_iter raw of Inl e \<Rightarrow> [] | Inr studies \<Rightarrow> studies)))"

definition page_records :: "(json \<Rightarrow> string) \<Rightarrow> http_result \<Rightarrow> py_dict list" where
  "page_records fmt r = List.map_filter (extract_study_data fmt) (page_items r)"

definition page_ok :: "http_result \<Rightarrow> bool" where
  "page_ok r = (case try_request r of Inl failure \<Rightarrow> False | Inr data \<Rightarrow> True)"

text \<open>A server that answers from a fixed sequence of canned responses, whatever the
  parameters; past the end of the sequence the connection fails.\<close>

definition canned :: "http_result list \<Rightarrow> server" where
  "canned rs n params = (if n < length rs then rs ! n else ConnectionError)"

text \<open>The leaf fields of the output with their paths in the raw record: the fields read
  as strings, the fields read as lists, and the enrollment count.\<close>

definition string_fields :: "(string \<times> string list) list" where
  "string_fields =
     [(''NCT ID'', [''protocolSection'', ''identificationModule'', ''nctId'']),
      (''Title'', [''protocolSection'', ''identificationModule'', ''briefTitle'']),
      (''Status'', [''protocolSection'', ''statusModule'', ''overallStatus'']),
      (''Study Type'', [''protocolSection'', ''designModule'', ''studyType'']),
      (''Brief Summary'', [''protocolSection'', ''descriptionModule'', ''briefSummary'']),
      (''Eligibility Criteria'', [''protocolSection'', ''eligibilityModule'', ''eligibilityCriteria'']),
      (''Start Date'', [''protocolSection'', ''statusModule'', ''startDateStruct'', ''date'']),
      (''Completion Date'', [''protocolSection'', ''statusModule'', ''completionDateStruct'', ''date''])]"

definition list_fields :: "(string \<times> string list) list" where
  "list_fields =
     [(''Phases'', [''protocolSection'', ''designModule'', ''phases'']),
      (''Conditions'', [''protocolSection'', ''conditionsModule'', ''conditions'']),
      (''Keywords'', [''protocolSection'', ''conditionsModule'', ''keywords'']),
      (''Interventions'', [''protocolSection'', ''armsInterventionsModule'', ''interventions'']),
      (''Primary Outcome Measures'', [''protocolSection'', ''outcomesModule'', ''primaryOutcomes'']),
      (''Locations'', [''protocolSection'', ''contactsLocationsModule'', ''locations''])]"

definition enrollment_path :: "string list" where
  "enrollment_path = [''protocolSection'', ''designModule'', ''enrollmentInfo'', ''count'']"

definition output_keys :: "string list" where
  "output_keys =
     [''NCT ID'', ''Title'', ''Status'', ''Phases'', ''Conditions'', ''Keywords'', ''Study Type'',
      ''Enrollment'', ''Interventions'', ''Brief Summary'', ''Primary Outcome Measures'',
      ''Eligibility Criteria'', ''Start Date'', ''Completion Date'', ''Locations'']"

text \<open>The name of an entry, or a part of a location, with the token for a missing one;
  and the string of a location entry.\<close>

definition entry_field :: "string \<Rightarrow> json \<Rightarrow> json" where
  "entry_field key entry = field_or [key] n_a entry"

definition location_text :: "(json \<Rightarrow> string) \<Rightarrow> json \<Rightarrow> json" where
  "location_text fmt loc =
     JStr (py_format fmt (entry_field ''city'' loc) @ '', '' @ py_format fmt (entry_field ''country'' loc))"

text \<open>The flat record the specification describes: every leaf field read at its path
  with its default, the three derived fields computed from the entries \<open>ivs\<close>, \<open>ocs\<close>
  and \<open>ls\<close> of the interventions, primary outcomes and locations lists.\<close>

definition projection ::
  "(json \<Rightarrow> string) \<Rightarrow> json \<Rightarrow> json list \<Rightarrow> json list \<Rightarrow> json list \<Rightarrow> py_dict" where
  "projection fmt s ivs ocs ls =
     [(''NCT ID'', field_or [''protocolSection'', ''identificationModule'', ''nctId''] not_available s),
      (''Title'', field_or [''protocolSection'', ''identificationModule'', ''briefTitle''] not_available s),
      (''Status'', field_or [''protocolSection'', ''statusModule'', ''overallStatus''] not_available s),
      (''Phases'', field_or [''protocolSection'', ''designModule'', ''phases''] (JArr []) s),
      (''Conditions'', field_or [''protocolSection'', ''conditionsModule'', ''conditions''] (JArr []) s),
      (''Keywords'', field_or [''protocolSection'', ''conditionsModule'', ''keywords''] (JArr []) s),
      (''Study Type'', field_or [''protocolSection'', ''designModule'', ''studyType''] not_available s),
      (''Enrollment'', field_or [''protocolSection'', ''designModule'', ''enrollmentInfo'', ''count''] JNull s),
      (''Interventions'', JArr (map (entry_field ''name'') ivs)),
      (''Brief Summary'', field_or [''protocolSection'', ''descriptionModule'', ''briefSummary''] not_available s),
      (''Primary Outcome Measures'', JArr (map (entry_field ''measure'') ocs)),
      (''Eligibility Criteria'', field_or [''protocolSection'', ''eligibilityModule'', ''eligibilityCriteria''] not_available s),
      (''Start Date'', field_or [''protocolSection'', ''statusModule'', ''startDateStruct'', ''date''] not_available s),
      (''Completion Date'', field_or [''protocolSection'', ''statusModule'', ''completionDateStruct'', ''date''] not_available s),
      (''Locations'', JArr (map (location_text fmt) ls))]"

definition interventions_path :: "string list" where
  "interventions_path = [''protocolSection'', ''armsInterventionsModule'', ''interventions'']"

definition outcomes_path :: "string list" where
  "outcomes_path = [''protocolSection'', ''outcomesModule'', ''primaryOutcomes'']"

definition locations_path :: "string list" where
  "locations_path = [''protocolSection'', ''contactsLocationsModule'', ''locations'']"




text \<open>The failures after which the loop is left through an \<^verbatim>\<open>except\<close> clause: the
  request raised, the status is one that \<^verbatim>\<open>raise_for_status\<close> rejects, or the body
  is not JSON. The second predicate reads "non-2xx status" and "fails JSON decoding"
  literally.\<close>

fun request_failure :: "http_result \<Rightarrow> bool" where
  "request_failure ConnectionError = True"
| "request_failure Timeout = True"
| "request_failure (GetRaises e) = False"
| "request_failure (Response status_code body) =
     ((400 \<le> status_code \<and> status_code < 600) \<or> body = NotJSON)"

fun stated_failure :: "http_result \<Rightarrow> bool" where
  "stated_failure ConnectionError = True"
| "stated_failure Timeout = True"
| "stated_failure (GetRaises e) = False"
| "stated_failure (Response status_code body) =
     (\<not> (200 \<le> status_code \<and> status_code < 300) \<or> (case body of Decoded data \<Rightarrow> False | NotJSON \<Rightarrow> True | DecoderRaises e \<Rightarrow> True))"

text \<open>The number of pages a run fetched: the requests that were answered with a page.\<close>

definition pages_fetched :: "fetch_result \<Rightarrow> nat" where
  "pages_fetched res = length (filter (\<lambda>x. page_ok (snd x)) (requests res))"

section \<open>Example data\<close>

text \<open>A formatter for the examples, which format no number, list or mapping.\<close>

fun str_example :: "json \<Rightarrow> string" where
  "str_example JNull = ''None''"
| "str_example (JBool True) = ''True''"
| "str_example (JBool False) = ''False''"
| "str_example v = []"

text \<open>Raw records: one with a few fields of each kind present, with the record extracted
  from it; one whose \<^verbatim>\<open>protocolSection\<close> is \<^verbatim>\<open>null\<close>; one with a section that is
  \<^verbatim>\<open>null\<close> inside \<^verbatim>\<open>protocolSection\<close>; and one without a
  \<^verbatim>\<open>protocolSection\<close>, from which the record of defaults is extracted.\<close>

definition study_example :: json where
  "study_example =
     JObj [(''protocolSection'', JObj
       [(''identificationModule'', JObj [(''nctId'', JStr ''NCT00001'')]),
        (''designModule'', JObj [(''phases'', JArr [JStr ''PHASE2''])]),
        (''armsInterventionsModule'', JObj
           [(''interventions'', JArr [JObj [(''name'', JStr ''Drug A'')], JObj [(''type'', JStr ''DRUG'')]])]),
        (''outcomesModule'', JObj
           [(''primaryOutcomes'', JArr [JObj [(''measure'', JStr ''Survival'')], JObj []])]),
        (''contactsLocationsModule'', JObj
           [(''locations'', JArr [JObj [(''city'', JStr ''Boston''), (''country'', JStr ''USA'')],
                                  JObj [(''city'', JStr ''Paris'')]])])])]"

definition study_broken :: json where
  "study_broken = JObj [(''protocolSection'', JNull)]"


definition study_example_out :: py_dict where
  "study_example_out =
     [(''NCT ID'', JStr ''NCT00001''), (''Title'', JStr ''Not Available''),
      (''Status'', JStr ''Not Available''), (''Phases'', JArr [JStr ''PHASE2'']),
      (''Conditions'', JArr []), (''Keywords'', JArr []),
      (''Study Type'', JStr ''Not Available''), (''Enrollment'', JNull),
      (''Interventions'', JArr [JStr ''Drug A'', JStr ''N/A'']),
      (''Brief Summary'', JStr ''Not Available''),
      (''Primary Outcome Measures'', JArr [JStr ''Survival'', JStr ''N/A'']),
      (''Eligibility Criteria'', JStr ''Not Available''),
      (''Start Date'', JStr ''Not Available''),
      (''Completion Date'', JStr ''Not Available''),
      (''Locations'', JArr [JStr ''Boston, USA'', JStr ''Paris, N/A''])]"

definition study_no_protocol :: json where
  "study_no_protocol = JObj [(''hasResults'', JBool False)]"

definition defaults_out :: py_dict where
  "defaults_out =
     [(''NCT ID'', JStr ''Not Available''), (''Title'', JStr ''Not Available''),
      (''Status'', JStr ''Not Available''), (''Phases'', JArr []),
      (''Conditions'', JArr []), (''Keywords'', JArr []),
      (''Study Type'', JStr ''Not Available''), (''Enrollment'', JNull),
      (''Interventions'', JArr []), (''Brief Summary'', JStr ''Not Available''),
      (''Primary Outcome Measures'', JArr []),
      (''Eligibility Criteria'', JStr ''Not Available''),
      (''Start Date'', JStr ''Not Available''),
      (''Completion Date'', JStr ''Not Available''), (''Locations'', JArr [])]"

text \<open>Pages and queries.\<close>

definition page_one :: json where
  "page_one = JObj [(''studies'', JArr [study_example, study_broken]),
                    (''nextPageToken'', JStr ''tok1'')]"

definition page_two :: json where
  "page_two = JObj [(''studies'', JArr [study_no_protocol]),
                    (''nextPageToken'', JStr ''tok2'')]"

definition page_three :: json where
  "page_three = JObj [(''studies'', JArr [study_example])]"

definition page_empty :: json where
  "page_empty = JObj [(''studies'', JArr []), (''nextPageToken'', JStr ''tok0'')]"

definition query_example :: py_dict where
  "query_example = [(''query.cond'', JStr ''diabetes'')]"

definition query_example_next :: py_dict where
  "query_example_next = [(''query.cond'', JStr ''diabetes''), (''pageToken'', JStr ''tok0'')]"

section \<open>Facts about the Python operations\<close>

lemma bind_Inr_iff: "bind m f = Inr y \<longleftrightarrow> (\<exists>x. m = Inr x \<and> f x = Inr y)"
  by (cases m) (simp_all add: bind_def)

lemma py_get_Inr_iff: "py_get v k dflt = Inr x \<longleftrightarrow> (\<exists>d. v = JObj d \<and> x = dict_get d k dflt)"
  by (cases v) auto

lemma field_or_leaf: "field_or [k] dflt (JObj d) = dict_get d k dflt"
  by (simp add: field_or_def dict_get_def split: option.splits)

lemma field_or_step:
  "ks \<noteq> [] \<Longrightarrow> field_or (k # ks) dflt (JObj d) = field_or ks dflt (dict_get d k (JObj []))"
  by (cases ks) (simp_all add: field_or_def dict_get_def split: option.splits)

lemma field_or_missing: "lookup_path path v = None \<Longrightarrow> field_or path dflt v = dflt"
  by (simp add: field_or_def)

lemma comprehension_map:
  "comprehension f xs = Inr ys \<Longrightarrow> (\<And>x y. f x = Inr y \<Longrightarrow> y = g x) \<Longrightarrow> ys = map g xs"
  by (induction xs arbitrary: ys) (auto simp: bind_Inr_iff)

lemma comprehension_mappings:
  "comprehension f xs = Inr ys \<Longrightarrow> (\<And>x y. f x = Inr y \<Longrightarrow> is_mapping x) \<Longrightarrow> list_all is_mapping xs"
  by (induction xs arbitrary: ys) (auto simp: bind_Inr_iff)

lemma names_map:
  "comprehension (\<lambda>e. py_get e key n_a) xs = Inr ys \<Longrightarrow>
     ys = map (entry_field key) xs \<and> list_all is_mapping xs"
  by (rule conjI, erule comprehension_map, (auto simp: py_get_Inr_iff entry_field_def field_or_leaf)[1],
      erule comprehension_mappings, auto simp: py_get_Inr_iff is_mapping_def)

lemma locations_map:
  "comprehension (location_string fmt) xs = Inr ys \<Longrightarrow>
     ys = map (location_text fmt) xs \<and> list_all is_mapping xs"
  by (rule conjI, erule comprehension_map,
      (auto simp: location_string_def location_text_def bind_Inr_iff py_get_Inr_iff
         entry_field_def field_or_leaf)[1],
      erule comprehension_mappings,
      auto simp: location_string_def bind_Inr_iff py_get_Inr_iff is_mapping_def)

section \<open>The record projector computes the projection of the specification\<close>

lemma extract_body_fields:
  assumes "extract_body fmt s = Inr r"
  shows "\<exists>ivs ocs ls.
    py_iter (field_or interventions_path (JArr []) s) = Inr ivs \<and> list_all is_mapping ivs \<and>
    py_iter (field_or outcomes_path (JArr []) s) = Inr ocs \<and> list_all is_mapping ocs \<and>
    py_iter (field_or locations_path (JArr []) s) = Inr ls \<and> list_all is_mapping ls \<and>
    r = projection fmt s ivs ocs ls"
  using assms
  unfolding extract_body_def projection_def interventions_path_def outcomes_path_def
    locations_path_def
  by (simp only: bind_Inr_iff py_get_Inr_iff)
     (auto simp: field_or_step field_or_leaf dest!: names_map locations_map)

lemma extract_study_data_Some:
  "extract_study_data fmt s = Some r \<longleftrightarrow> extract_body fmt s = Inr r"
  by (simp add: extract_study_data_def split: sum.splits)

lemma extract_nonempty: "extract_study_data fmt s = Some r \<Longrightarrow> r \<noteq> []"
  by (auto simp: extract_study_data_Some projection_def dest!: extract_body_fields)

lemma extract_each_eq:
  "extract_each fmt studies acc = acc @ List.map_filter (extract_study_data fmt) studies"
  by (induction studies arbitrary: acc)
     (auto simp: dest: extract_nonempty split: option.splits)


lemma length_map_filter: "length (List.map_filter f xs) \<le> length xs"
  by (induction xs) (auto split: option.splits)












section \<open>Claims about the record projector\<close>

text \<open>
  C9. Whenever extraction succeeds, the returned flat mapping has exactly the fifteen keys
  NCT ID, Title, Status, Phases, Conditions, Keywords, Study Type, Enrollment,
  Interventions, Brief Summary, Primary Outcome Measures, Eligibility Criteria, Start Date,
  Completion Date, Locations, in this order, whatever the shape of the raw record.
\<close>

theorem extract_keys_fixed:
  "extract_study_data fmt s = Some r \<Longrightarrow> map fst r = output_keys \<and> length r = 15"
  by (auto simp: extract_study_data_Some output_keys_def projection_def
      dest!: extract_body_fields)

theorem extract_keys_fixed_witness:
  "extract_study_data str_example study_example = Some study_example_out \<and>
   map fst study_example_out = output_keys \<and> length study_example_out = 15"
proof -
  have h: "extract_study_data str_example study_example = Some study_example_out"
    by code_simp
  from extract_keys_fixed[OF h] h show ?thesis by simp
qed

text \<open>
  C7. Whenever extraction succeeds: each of the eight string fields that is missing from
  the raw record is "Not Available" in the result; each of the six list fields that is
  missing is the empty sequence; and a missing enrollment count is the null value, which
  is not the number zero.
\<close>

theorem missing_fields_default:
  assumes "extract_study_data fmt s = Some r"
  shows "(\<forall>(key, path) \<in> set string_fields.
            lookup_path path s = None \<longrightarrow> map_of r key = Some (JStr ''Not Available'')) \<and>
         (\<forall>(key, path) \<in> set list_fields.
            lookup_path path s = None \<longrightarrow> map_of r key = Some (JArr [])) \<and>
         (lookup_path enrollment_path s = None \<longrightarrow>
            map_of r ''Enrollment'' = Some JNull \<and> JNull \<noteq> JNum 0)"
proof -
  from assms have "extract_body fmt s = Inr r"
    by (simp add: extract_study_data_Some)
  from extract_body_fields[OF this] obtain ivs ocs ls where
    iv: "py_iter (field_or interventions_path (JArr []) s) = Inr ivs"
    and oc: "py_iter (field_or outcomes_path (JArr []) s) = Inr ocs"
    and lo: "py_iter (field_or locations_path (JArr []) s) = Inr ls"
    and r: "r = projection fmt s ivs ocs ls"
    by blast
  have strings: "\<forall>(key, path) \<in> set string_fields.
      lookup_path path s = None \<longrightarrow> map_of r key = Some (JStr ''Not Available'')"
    unfolding r projection_def string_fields_def
    by (simp add: field_or_missing not_available_def)
  have lists: "\<forall>(key, path) \<in> set list_fields.
      lookup_path path s = None \<longrightarrow> map_of r key = Some (JArr [])"
    using iv oc lo
    unfolding r projection_def list_fields_def interventions_path_def outcomes_path_def
      locations_path_def
    by (auto simp: field_or_missing)
  have enr: "lookup_path enrollment_path s = None \<longrightarrow> map_of r ''Enrollment'' = Some JNull"
    unfolding r projection_def enrollment_path_def by (simp add: field_or_missing)
  from strings lists enr show ?thesis by simp
qed

theorem missing_fields_default_witness:
  "extract_study_data str_example study_example = Some study_example_out \<and>
   lookup_path [''protocolSection'', ''identificationModule'', ''briefTitle''] study_example = None \<and>
   map_of study_example_out ''Title'' = Some (JStr ''Not Available'') \<and>
   lookup_path [''protocolSection'', ''statusModule'', ''startDateStruct'', ''date''] study_example = None \<and>
   map_of study_example_out ''Start Date'' = Some (JStr ''Not Available'') \<and>
   lookup_path [''protocolSection'', ''conditionsModule'', ''keywords''] study_example = None \<and>
   map_of study_example_out ''Keywords'' = Some (JArr []) \<and>
   lookup_path enrollment_path study_example = None \<and>
   map_of study_example_out ''Enrollment'' = Some JNull"
proof -
  have h: "extract_study_data str_example study_example = Some study_example_out"
    by code_simp
  have m: "lookup_path [''protocolSection'', ''identificationModule'', ''briefTitle''] study_example = None"
    "lookup_path [''protocolSection'', ''statusModule'', ''startDateStruct'', ''date''] study_example = None"
    "lookup_path [''protocolSection'', ''conditionsModule'', ''keywords''] study_example = None"
    "lookup_path enrollment_path study_example = None"
    by (simp_all add: study_example_def enrollment_path_def)
  from missing_fields_default[OF h] m h show ?thesis
    by (simp add: string_fields_def list_fields_def)
qed

text \<open>
  C8. Whenever extraction succeeds, the interventions, primary outcomes and locations of
  the raw record are sequences of mappings, and: the Interventions field is the sequence
  of the entries' names, in order, with "N/A" for an entry without a name; the Primary
  Outcome Measures field is the sequence of the entries' measures, with "N/A" for an entry
  without one; the Locations field is the sequence of the strings "city, country" of the
  entries, with "N/A" for a missing part. "N/A" is a different token from "Not Available".
\<close>

theorem derived_fields:
  assumes "extract_study_data fmt s = Some r"
  shows "\<exists>ivs ocs ls.
    py_iter (field_or interventions_path (JArr []) s) = Inr ivs \<and> list_all is_mapping ivs \<and>
    py_iter (field_or outcomes_path (JArr []) s) = Inr ocs \<and> list_all is_mapping ocs \<and>
    py_iter (field_or locations_path (JArr []) s) = Inr ls \<and> list_all is_mapping ls \<and>
    map_of r ''Interventions'' = Some (JArr (map (entry_field ''name'') ivs)) \<and>
    map_of r ''Primary Outcome Measures'' = Some (JArr (map (entry_field ''measure'') ocs)) \<and>
    map_of r ''Locations'' = Some (JArr (map (location_text fmt) ls)) \<and>
    n_a = JStr ''N/A'' \<and> n_a \<noteq> not_available"
proof -
  from assms have "extract_body fmt s = Inr r"
    by (simp add: extract_study_data_Some)
  from extract_body_fields[OF this] obtain ivs ocs ls where
    f: "py_iter (field_or interventions_path (JArr []) s) = Inr ivs" "list_all is_mapping ivs"
       "py_iter (field_or outcomes_path (JArr []) s) = Inr ocs" "list_all is_mapping ocs"
       "py_iter (field_or locations_path (JArr []) s) = Inr ls" "list_all is_mapping ls"
    and r: "r = projection fmt s ivs ocs ls"
    by blast
  have "map_of r ''Interventions'' = Some (JArr (map (entry_field ''name'') ivs))"
    "map_of r ''Primary Outcome Measures'' = Some (JArr (map (entry_field ''measure'') ocs))"
    "map_of r ''Locations'' = Some (JArr (map (location_text fmt) ls))"
    unfolding r projection_def by simp_all
  moreover have "n_a = JStr ''N/A''" "n_a \<noteq> not_available"
    by (simp_all add: n_a_def not_available_def)
  ultimately show ?thesis using f by blast
qed

theorem derived_fields_witness:
  "extract_study_data str_example study_example = Some study_example_out \<and>
   map_of study_example_out ''Interventions'' = Some (JArr [JStr ''Drug A'', JStr ''N/A'']) \<and>
   map_of study_example_out ''Primary Outcome Measures'' = Some (JArr [JStr ''Survival'', JStr ''N/A'']) \<and>
   map_of study_example_out ''Locations'' = Some (JArr [JStr ''Boston, USA'', JStr ''Paris, N/A''])"
proof -
  have h: "extract_study_data str_example study_example = Some study_example_out"
    by code_simp
  have p: "field_or interventions_path (JArr []) study_example =
             JArr [JObj [(''name'', JStr ''Drug A'')], JObj [(''type'', JStr ''DRUG'')]]"
    "field_or outcomes_path (JArr []) study_example =
             JArr [JObj [(''measure'', JStr ''Survival'')], JObj []]"
    "field_or locations_path (JArr []) study_example =
             JArr [JObj [(''city'', JStr ''Boston''), (''country'', JStr ''USA'')],
                   JObj [(''city'', JStr ''Paris'')]]"
    by (simp_all add: field_or_def study_example_def interventions_path_def outcomes_path_def
        locations_path_def)
  from derived_fields[OF h] p h show ?thesis
    by (auto simp: entry_field_def location_text_def field_or_def py_format_def n_a_def)
qed




section \<open>Facts about the pagination loop\<close>

lemma py_len_iter: "py_len v = Inl e \<longleftrightarrow> py_iter v = Inl e"
  by (cases v) auto

lemma page_ok_iff: "page_ok r \<longleftrightarrow> (\<exists>data. try_request r = Inr data)"
  by (simp add: page_ok_def split: sum.splits)

lemma page_items_failed: "\<not> page_ok r \<Longrightarrow> page_items r = []"
  by (simp add: page_ok_def page_items_def split: sum.splits)

lemma request_failure_iff: "request_failure r \<longleftrightarrow> (\<exists>failure. try_request r = Inl (Caught failure))"
  by (cases r) (auto simp: raise_for_status_def split: body.splits)

lemma request_failure_not_ok: "request_failure r \<Longrightarrow> \<not> page_ok r"
  by (auto simp: request_failure_iff page_ok_def)

text \<open>What one pass of the loop body does to the state.\<close>

lemma page_body_effect:
  assumes "page_body fmt srv l st = (sig, st2)"
  shows "exchanges st2 = exchanges st @ [(heap st ! l, srv (length (exchanges st)) (heap st ! l))]"
    and "length (heap st2) = length (heap st)"
    and "i \<noteq> l \<Longrightarrow> heap st2 ! i = heap st ! i"
    and "sig = Continue \<Longrightarrow> page_ok (srv (length (exchanges st)) (heap st ! l))"
    and "request_failure (srv (length (exchanges st)) (heap st ! l)) \<Longrightarrow> sig = Break"
    and "sig = Continue \<or> sig = Break \<Longrightarrow>
           all_extracted_studies st2 = all_extracted_studies st @
             page_records fmt (srv (length (exchanges st)) (heap st ! l))"
  using assms
  by (auto simp: page_body_def Let_def page_ok_def page_records_def page_items_def
      request_failure_iff extract_each_eq py_len_iter
      split: sum.splits try_failure.splits if_splits)

text \<open>The loop invariant: the log grows by the requests of this run, of which only the
  last can have failed; the store changes at the local copy only; and when no exception
  leaves the loop, the result grows by the records of the pages received, in order.\<close>

lemma fetch_loop_effect:
  "fetch_loop fmt srv l max_pages current_page st = (exn, st') \<Longrightarrow>
   \<exists>new. exchanges st' = exchanges st @ new \<and>
     length (heap st') = length (heap st) \<and>
     (\<forall>i. i \<noteq> l \<longrightarrow> heap st' ! i = heap st ! i) \<and>
     list_all (\<lambda>x. page_ok (snd x)) (butlast new) \<and>
     (new \<noteq> [] \<and> request_failure (snd (last new)) \<longrightarrow> exn = None) \<and>
     (exn = None \<longrightarrow> all_extracted_studies st' =
        all_extracted_studies st @ concat (map (\<lambda>x. page_records fmt (snd x)) new)) \<and>
     int (length new) \<le> max 0 (max_pages - current_page)"
proof (induction fmt srv l max_pages current_page st arbitrary: exn st' rule: fetch_loop.induct)
  case (1 fmt srv l max_pages current_page st)
  show ?case
  proof (cases "current_page + 1 > max_pages")
    case True
    with "1.prems" have "st' = st" "exn = None"
      by (simp_all add: fetch_loop.simps[of fmt srv l max_pages current_page st])
    then show ?thesis by (intro exI[of _ "[]"]) simp
  next
    case False
    obtain sig st2 where pb: "page_body fmt srv l st = (sig, st2)"
      by (cases "page_body fmt srv l st")
    let ?x = "(heap st ! l, srv (length (exchanges st)) (heap st ! l))"
    note eff = page_body_effect[OF pb]
    show ?thesis
    proof (cases sig)
      case Continue
      with False pb "1.prems"
      have rec: "fetch_loop fmt srv l max_pages (current_page + 1) st2 = (exn, st')"
        by (simp add: fetch_loop.simps[of fmt srv l max_pages current_page st])
      from "1.IH"[OF False pb[symmetric] Continue rec] obtain new where
        n: "exchanges st' = exchanges st2 @ new"
        "length (heap st') = length (heap st2)"
        "\<forall>i. i \<noteq> l \<longrightarrow> heap st' ! i = heap st2 ! i"
        "list_all (\<lambda>x. page_ok (snd x)) (butlast new)"
        "new \<noteq> [] \<and> request_failure (snd (last new)) \<longrightarrow> exn = None"
        "exn = None \<longrightarrow> all_extracted_studies st' =
           all_extracted_studies st2 @ concat (map (\<lambda>x. page_records fmt (snd x)) new)"
        "int (length new) \<le> max 0 (max_pages - (current_page + 1))"
        by blast
      have ok: "page_ok (snd ?x)"
        using eff(4) Continue by simp
      have acc: "all_extracted_studies st2 = all_extracted_studies st @ page_records fmt (snd ?x)"
        using eff(6) Continue by simp
      have "?x # new \<noteq> [] \<and> request_failure (snd (last (?x # new))) \<longrightarrow> exn = None"
        using n(5) ok by (cases new) (auto dest: request_failure_not_ok)
      moreover have "list_all (\<lambda>x. page_ok (snd x)) (butlast (?x # new))"
        using n(4) ok by (cases new) auto
      moreover have "int (length (?x # new)) \<le> max 0 (max_pages - current_page)"
        using n(7) False by simp
      ultimately show ?thesis
        using n(1,2,3,6) eff(1,2,3) acc
        by (intro exI[of _ "?x # new"]) simp
    next
      case Break
      with False pb "1.prems" have "st' = st2" "exn = None"
        by (simp_all add: fetch_loop.simps[of fmt srv l max_pages current_page st])
      then show ?thesis
        using eff(1,2,3,6) Break False by (intro exI[of _ "[?x]"]) simp
    next
      case (Raise e)
      with False pb "1.prems" have s: "st' = st2" "exn = Some e"
        by (simp_all add: fetch_loop.simps[of fmt srv l max_pages current_page st])
      have "\<not> request_failure (snd ?x)"
        using eff(5) Raise by auto
      then show ?thesis
        using eff(1,2,3) s False by (intro exI[of _ "[?x]"]) simp
    qed
  qed
qed

text \<open>The invariant, for a whole run.\<close>

lemma fetch_all_trials_effect:
  shows "length (final_heap (fetch_all_trials fmt srv h q max_pages page_size)) = Suc (length h)"
    and "i < length h \<Longrightarrow>
           final_heap (fetch_all_trials fmt srv h q max_pages page_size) ! i = h ! i"
    and "list_all (\<lambda>x. page_ok (snd x))
           (butlast (requests (fetch_all_trials fmt srv h q max_pages page_size)))"
    and "requests (fetch_all_trials fmt srv h q max_pages page_size) \<noteq> [] \<Longrightarrow>
         request_failure (snd (last (requests (fetch_all_trials fmt srv h q max_pages page_size)))) \<Longrightarrow>
           returned (fetch_all_trials fmt srv h q max_pages page_size) =
             Inr (concat (map (\<lambda>x. page_records fmt (snd x))
                   (requests (fetch_all_trials fmt srv h q max_pages page_size))))"
    and "returned (fetch_all_trials fmt srv h q max_pages page_size) = Inr recs \<Longrightarrow>
           recs = concat (map (\<lambda>x. page_records fmt (snd x))
                   (requests (fetch_all_trials fmt srv h q max_pages page_size)))"
    and "int (length (requests (fetch_all_trials fmt srv h q max_pages page_size))) \<le> max 0 max_pages"
proof -
  let ?h2 = "(h @ [h ! q])[length h := AList.update ''pageSize'' (JNum page_size) ((h @ [h ! q]) ! length h)]"
  let ?st0 = "\<lparr>heap = ?h2, all_extracted_studies = [], exchanges = []\<rparr>"
  let ?res = "fetch_all_trials fmt srv h q max_pages page_size"
  obtain exn st where loop: "fetch_loop fmt srv (length h) max_pages 0 ?st0 = (exn, st)"
    by (cases "fetch_loop fmt srv (length h) max_pages 0 ?st0")
  then have res: "?res =
      \<lparr>returned = (case exn of None \<Rightarrow> Inr (all_extracted_studies st) | Some e \<Rightarrow> Inl e),
       final_heap = heap st, requests = exchanges st\<rparr>"
    by (simp add: fetch_all_trials_def Let_def)
  from fetch_loop_effect[OF loop] obtain new where
    n: "exchanges st = new" "length (heap st) = Suc (length h)"
       "\<forall>i. i \<noteq> length h \<longrightarrow> heap st ! i = ?h2 ! i"
       "list_all (\<lambda>x. page_ok (snd x)) (butlast new)"
       "new \<noteq> [] \<and> request_failure (snd (last new)) \<longrightarrow> exn = None"
       "exn = None \<longrightarrow> all_extracted_studies st = concat (map (\<lambda>x. page_records fmt (snd x)) new)"
       "int (length new) \<le> max 0 max_pages"
    by auto
  show "length (final_heap ?res) = Suc (length h)"
    using res n(2) by simp
  show "final_heap ?res ! i = h ! i" if "i < length h"
    using res n(3) that by (simp add: nth_append)
  show "list_all (\<lambda>x. page_ok (snd x)) (butlast (requests ?res))"
    using res n(1,4) by simp
  show "returned ?res = Inr (concat (map (\<lambda>x. page_records fmt (snd x)) (requests ?res)))"
    if "requests ?res \<noteq> []" "request_failure (snd (last (requests ?res)))"
    using res n(1,5,6) that by simp
  show "recs = concat (map (\<lambda>x. page_records fmt (snd x)) (requests ?res))"
    if "returned ?res = Inr recs"
    using res n(1,6) that by (cases exn) simp_all
  show "int (length (requests ?res)) \<le> max 0 max_pages"
    using res n(1,7) by simp
qed

lemma records_bounded:
  assumes "\<forall>x \<in> set new. int (length (page_items (snd x))) \<le> page_size"
  shows "int (length (concat (map (\<lambda>x. page_records fmt (snd x)) new))) \<le>
           int (length (filter (\<lambda>x. page_ok (snd x)) new)) * page_size"
  using assms
proof (induction new)
  case Nil
  show ?case by simp
next
  case (Cons x new)
  have le: "length (page_records fmt (snd x)) \<le> length (page_items (snd x))"
    by (simp add: page_records_def length_map_filter)
  show ?case
  proof (cases "page_ok (snd x)")
    case True
    from Cons.prems have "int (length (page_items (snd x))) \<le> page_size" by simp
    with le have "int (length (page_records fmt (snd x))) \<le> page_size" by linarith
    moreover from Cons have "int (length (concat (map (\<lambda>x. page_records fmt (snd x)) new))) \<le>
           int (length (filter (\<lambda>x. page_ok (snd x)) new)) * page_size" by simp
    ultimately show ?thesis using True by (simp add: algebra_simps)
  next
    case False
    then have "page_records fmt (snd x) = []"
      by (simp add: page_records_def page_items_failed)
    with Cons False show ?thesis by simp
  qed
qed

text \<open>One pass of the loop over a page that decodes to a mapping with iterable studies.\<close>

lemma page_body_page:
  assumes "try_request (srv (length (exchanges st)) (heap st ! l)) = Inr (JObj d)"
    and "py_iter (dict_get d ''studies'' (JArr [])) = Inr studies"
  shows "page_body fmt srv l st =
     (if truthy (dict_get d ''nextPageToken'' JNull)
      then (Continue,
            st\<lparr>exchanges := exchanges st @ [(heap st ! l, srv (length (exchanges st)) (heap st ! l))],
               all_extracted_studies :=
                 all_extracted_studies st @ List.map_filter (extract_study_data fmt) studies,
               heap := (heap st)[l := AList.update ''pageToken''
                          (dict_get d ''nextPageToken'' JNull) (heap st ! l)]\<rparr>)
      else (Break,
            st\<lparr>exchanges := exchanges st @ [(heap st ! l, srv (length (exchanges st)) (heap st ! l))],
               all_extracted_studies :=
                 all_extracted_studies st @ List.map_filter (extract_study_data fmt) studies\<rparr>))"
proof -
  from assms(2) obtain n where "py_len (dict_get d ''studies'' (JArr [])) = Inr n"
    by (cases "py_len (dict_get d ''studies'' (JArr []))") (simp_all add: py_len_iter)
  with assms show ?thesis
    by (simp add: page_body_def Let_def extract_each_eq)
qed

lemma fetch_loop_page:
  assumes "current_page + 1 \<le> max_pages"
    and "try_request (srv (length (exchanges st)) (heap st ! l)) = Inr (JObj d)"
    and "py_iter (dict_get d ''studies'' (JArr [])) = Inr studies"
  shows "fetch_loop fmt srv l max_pages current_page st =
     (if truthy (dict_get d ''nextPageToken'' JNull)
      then fetch_loop fmt srv l max_pages (current_page + 1)
            (st\<lparr>exchanges := exchanges st @ [(heap st ! l, srv (length (exchanges st)) (heap st ! l))],
               all_extracted_studies :=
                 all_extracted_studies st @ List.map_filter (extract_study_data fmt) studies,
               heap := (heap st)[l := AList.update ''pageToken''
                          (dict_get d ''nextPageToken'' JNull) (heap st ! l)]\<rparr>)
      else (None,
            st\<lparr>exchanges := exchanges st @ [(heap st ! l, srv (length (exchanges st)) (heap st ! l))],
               all_extracted_studies :=
                 all_extracted_studies st @ List.map_filter (extract_study_data fmt) studies\<rparr>))"
  using assms(1)
    page_body_page[where srv = srv and st = st and l = l and d = d and studies = studies
      and fmt = fmt, OF assms(2,3)]
  by (subst fetch_loop.simps) simp

lemma fetch_loop_limit:
  "max_pages < current_page + 1 \<Longrightarrow> fetch_loop fmt srv l max_pages current_page st = (None, st)"
  by (subst fetch_loop.simps) simp

text \<open>A pass that starts below the page limit issues a request.\<close>

lemma fetch_loop_requests_once:
  assumes "current_page + 1 \<le> max_pages"
  shows "length (exchanges st) + 1 \<le>
           length (exchanges (snd (fetch_loop fmt srv l max_pages current_page st)))"
proof -
  obtain sig st2 where pb: "page_body fmt srv l st = (sig, st2)"
    by (cases "page_body fmt srv l st")
  note eff = page_body_effect[OF pb]
  show ?thesis
  proof (cases sig)
    case Continue
    obtain exn st' where r: "fetch_loop fmt srv l max_pages (current_page + 1) st2 = (exn, st')"
      by (cases "fetch_loop fmt srv l max_pages (current_page + 1) st2")
    from fetch_loop_effect[OF r] obtain new where "exchanges st' = exchanges st2 @ new"
      by blast
    moreover have "fetch_loop fmt srv l max_pages current_page st = (exn, st')"
      using assms pb Continue r by (subst fetch_loop.simps) simp
    ultimately show ?thesis using eff(1) by simp
  next
    case Break
    with assms pb have "fetch_loop fmt srv l max_pages current_page st = (None, st2)"
      by (subst fetch_loop.simps) simp
    then show ?thesis using eff(1) by simp
  next
    case (Raise e)
    with assms pb have "fetch_loop fmt srv l max_pages current_page st = (Some e, st2)"
      by (subst fetch_loop.simps) simp
    then show ?thesis using eff(1) by simp
  qed
qed

section \<open>Claims about the query runner\<close>

text \<open>
  C1, as amended. In every run, a request that suffers a connection error, a timeout or a
  4xx or 5xx status, or whose body is not JSON, so that decoding it raises
  \<^verbatim>\<open>JSONDecodeError\<close>, is the last request of the run: the loop stops there, no
  exception leaves the function, and the sequence returned is the records of the pages
  received before it, in order (the empty sequence when the failure is on the first page).
\<close>

theorem failure_returns_accumulated:
  assumes "(params, r) \<in> set (requests (fetch_all_trials fmt srv h q max_pages page_size))"
    and "request_failure r"
  shows "\<exists>prior. requests (fetch_all_trials fmt srv h q max_pages page_size) = prior @ [(params, r)] \<and>
           list_all (\<lambda>x. page_ok (snd x)) prior \<and>
           returned (fetch_all_trials fmt srv h q max_pages page_size) =
             Inr (concat (map (\<lambda>x. page_records fmt (snd x)) prior))"
proof -
  let ?res = "fetch_all_trials fmt srv h q max_pages page_size"
  let ?new = "requests ?res"
  note eff = fetch_all_trials_effect[where fmt = fmt and srv = srv and h = h and q = q
      and max_pages = max_pages and page_size = page_size]
  from assms(2) have bad: "\<not> page_ok r"
    by (rule request_failure_not_ok)
  from assms(1) have ne: "?new \<noteq> []" by auto
  have "(params, r) \<notin> set (butlast ?new)"
    using eff(3) bad by (auto simp: list_all_iff)
  moreover from ne have "set ?new = set (butlast ?new) \<union> {last ?new}"
    by (metis append_butlast_last_id set_append list.simps(15) list.set(1))
  ultimately have last: "last ?new = (params, r)"
    using assms(1) by auto
  with ne have split: "?new = butlast ?new @ [(params, r)]"
    by (metis append_butlast_last_id)
  have "page_records fmt r = []"
    using bad by (simp add: page_records_def page_items_failed)
  then have "concat (map (\<lambda>x. page_records fmt (snd x)) ?new) =
             concat (map (\<lambda>x. page_records fmt (snd x)) (butlast ?new))"
    by (subst split) simp
  moreover have "returned ?res = Inr (concat (map (\<lambda>x. page_records fmt (snd x)) ?new))"
    using eff(4) ne last assms(2) by simp
  ultimately have "returned ?res =
      Inr (concat (map (\<lambda>x. page_records fmt (snd x)) (butlast ?new)))"
    by simp
  with split eff(3) show ?thesis by blast
qed

theorem failure_returns_accumulated_witness:
  "requests (fetch_all_trials str_example
      (canned [Response 200 (Decoded page_one), Response 503 NotJSON]) [query_example] 0 10 20) =
     [([(''query.cond'', JStr ''diabetes''), (''pageSize'', JNum 20)], Response 200 (Decoded page_one))] @
     [([(''query.cond'', JStr ''diabetes''), (''pageSize'', JNum 20), (''pageToken'', JStr ''tok1'')],
       Response 503 NotJSON)] \<and>
   request_failure (Response 503 NotJSON) \<and>
   returned (fetch_all_trials str_example
      (canned [Response 200 (Decoded page_one), Response 503 NotJSON]) [query_example] 0 10 20) =
     Inr [study_example_out]"
proof -
  let ?res = "fetch_all_trials str_example
      (canned [Response 200 (Decoded page_one), Response 503 NotJSON]) [query_example] 0 10 20"
  let ?p = "[(''query.cond'', JStr ''diabetes''), (''pageSize'', JNum 20), (''pageToken'', JStr ''tok1'')]"
  have log: "requests ?res =
     [([(''query.cond'', JStr ''diabetes''), (''pageSize'', JNum 20)], Response 200 (Decoded page_one))] @
     [(?p, Response 503 NotJSON)]"
    by code_simp
  have f: "request_failure (Response 503 NotJSON)" by simp
  have rec: "page_records str_example (Response 200 (Decoded page_one)) = [study_example_out]"
    by code_simp
  from log have mem: "(?p, Response 503 NotJSON) \<in> set (requests ?res)" by simp
  from failure_returns_accumulated[OF mem f] obtain prior where
    "requests ?res = prior @ [(?p, Response 503 NotJSON)]"
    "returned ?res = Inr (concat (map (\<lambda>x. page_records str_example (snd x)) prior))"
    by blast
  with log rec f show ?thesis by simp
qed

text \<open>
  C1 as stated counts every status outside 2xx as a transport failure, and every failure
  to decode the body as one after which the partial result is returned. The code leaves
  the judgement of the status to \<^verbatim>\<open>raise_for_status\<close>, which accepts a 3xx status: a
  page answered with status 300 is processed like any other, its records are returned and
  the next page is requested. And it catches \<^verbatim>\<open>JSONDecodeError\<close> only: when the decoder
  raises another exception for the second page, the exception leaves the function and the
  records of the first page are not returned.
\<close>

theorem stated_failures_not_handled:
  "stated_failure (Response 300 (Decoded page_one)) \<and>
   length (requests (fetch_all_trials str_example
      (canned [Response 300 (Decoded page_one), Response 200 (Decoded page_three)])
      [query_example] 0 10 20)) = 2 \<and>
   returned (fetch_all_trials str_example
      (canned [Response 300 (Decoded page_one), Response 200 (Decoded page_three)])
      [query_example] 0 10 20) = Inr [study_example_out, study_example_out] \<and>
   stated_failure (Response 200 (DecoderRaises RecursionError)) \<and>
   returned (fetch_all_trials str_example
      (canned [Response 200 (Decoded page_one), Response 200 (DecoderRaises RecursionError)])
      [query_example] 0 10 20) = Inl RecursionError"
  by code_simp

text \<open>
  C5, as amended. If no page received in a run holds more than \<open>page_size\<close> raw records,
  the length of the returned sequence is at most the number of pages fetched times
  \<open>page_size\<close>; it is never negative.
\<close>

theorem result_length_bounded:
  assumes "returned (fetch_all_trials fmt srv h q max_pages page_size) = Inr recs"
    and "\<forall>x \<in> set (requests (fetch_all_trials fmt srv h q max_pages page_size)).
           int (length (page_items (snd x))) \<le> page_size"
  shows "0 \<le> int (length recs) \<and>
         int (length recs) \<le>
           int (pages_fetched (fetch_all_trials fmt srv h q max_pages page_size)) * page_size"
proof -
  let ?res = "fetch_all_trials fmt srv h q max_pages page_size"
  have "recs = concat (map (\<lambda>x. page_records fmt (snd x)) (requests ?res))"
    using assms(1) by (rule fetch_all_trials_effect(5))
  moreover have "int (length (concat (map (\<lambda>x. page_records fmt (snd x)) (requests ?res)))) \<le>
          int (length (filter (\<lambda>x. page_ok (snd x)) (requests ?res))) * page_size"
    using assms(2) by (rule records_bounded)
  ultimately show ?thesis
    by (simp add: pages_fetched_def)
qed

theorem result_length_bounded_witness:
  "returned (fetch_all_trials str_example
      (canned [Response 200 (Decoded page_one), Response 200 (Decoded page_three)])
      [query_example] 0 10 2) = Inr [study_example_out, study_example_out] \<and>
   int (length (page_items (Response 200 (Decoded page_one)))) \<le> 2 \<and>
   int (length (page_items (Response 200 (Decoded page_three)))) \<le> 2 \<and>
   int (length [study_example_out, study_example_out]) \<le>
     int (pages_fetched (fetch_all_trials str_example
        (canned [Response 200 (Decoded page_one), Response 200 (Decoded page_three)])
        [query_example] 0 10 2)) * 2"
proof -
  let ?res = "fetch_all_trials str_example
      (canned [Response 200 (Decoded page_one), Response 200 (Decoded page_three)])
      [query_example] 0 10 2"
  have r: "returned ?res = Inr [study_example_out, study_example_out]"
    by code_simp
  have l: "map snd (requests ?res) = [Response 200 (Decoded page_one), Response 200 (Decoded page_three)]"
    by code_simp
  have i: "int (length (page_items (Response 200 (Decoded page_one)))) \<le> 2"
    "int (length (page_items (Response 200 (Decoded page_three)))) \<le> 2"
    by code_simp+
  have "\<forall>x \<in> set (requests ?res). int (length (page_items (snd x))) \<le> 2"
  proof
    fix x assume "x \<in> set (requests ?res)"
    then have "snd x \<in> set (map snd (requests ?res))" by simp
    with l i show "int (length (page_items (snd x))) \<le> 2" by auto
  qed
  from result_length_bounded[OF r this] r i show ?thesis by simp
qed

text \<open>
  C5 as stated has no condition on the pages. Nothing in the code compares a page
  with \<open>page_size\<close>: a server that answers a request for one record with a page of two
  gets both returned.
\<close>

theorem oversized_page_exceeds_bound:
  "returned (fetch_all_trials str_example
      (canned [Response 200 (Decoded (JObj [(''studies'', JArr [study_example, study_no_protocol])]))])
      [query_example] 0 10 1) = Inr [study_example_out, defaults_out] \<and>
   pages_fetched (fetch_all_trials str_example
      (canned [Response 200 (Decoded (JObj [(''studies'', JArr [study_example, study_no_protocol])]))])
      [query_example] 0 10 1) = 1 \<and>
   \<not> int (length [study_example_out, defaults_out]) \<le> int 1 * 1"
  by code_simp

text \<open>
  C6. The caller's query mapping is the same after the call as before it: every object
  that was in the store before the call is unchanged, and the page size and the page
  token are written to the copy only.
\<close>

theorem caller_query_unchanged:
  assumes "q < length h"
  shows "final_heap (fetch_all_trials fmt srv h q max_pages page_size) ! q = h ! q \<and>
         take (length h) (final_heap (fetch_all_trials fmt srv h q max_pages page_size)) = h"
proof -
  let ?res = "fetch_all_trials fmt srv h q max_pages page_size"
  note eff = fetch_all_trials_effect[where fmt = fmt and srv = srv and h = h and q = q
      and max_pages = max_pages and page_size = page_size]
  have "take (length h) (final_heap ?res) = h"
    using eff(1,2) by (intro nth_equalityI) simp_all
  with eff(2)[OF assms] show ?thesis by simp
qed

theorem caller_query_unchanged_witness:
  "(0::nat) < length [query_example] \<and>
   final_heap (fetch_all_trials str_example
      (canned [Response 200 (Decoded page_one), Response 200 (Decoded page_three)])
      [query_example] 0 10 20) ! 0 = query_example \<and>
   final_heap (fetch_all_trials str_example
      (canned [Response 200 (Decoded page_one), Response 200 (Decoded page_three)])
      [query_example] 0 10 20) ! 1 =
     [(''query.cond'', JStr ''diabetes''), (''pageSize'', JNum 20), (''pageToken'', JStr ''tok1'')]"
proof -
  have a: "(0::nat) < length [query_example]" by simp
  have c: "final_heap (fetch_all_trials str_example
      (canned [Response 200 (Decoded page_one), Response 200 (Decoded page_three)])
      [query_example] 0 10 20) ! 1 =
     [(''query.cond'', JStr ''diabetes''), (''pageSize'', JNum 20), (''pageToken'', JStr ''tok1'')]"
    by code_simp
  from caller_query_unchanged[OF a, of str_example
      "canned [Response 200 (Decoded page_one), Response 200 (Decoded page_three)]" 10 20] a c
  show ?thesis by simp
qed

text \<open>
  C3. Against three canned pages of which the first two carry a continuation token and
  the third carries none, with a page limit of at least 3, the run issues exactly three
  requests, answered by the three pages in order; the second and the third request carry
  the token of the page before; and the sequence returned is the extracted records of
  page 1, then of page 2, then of page 3, each in the order of its page.
\<close>

theorem three_pages_concatenated:
  assumes "try_request r1 = Inr (JObj d1)"
    and "try_request r2 = Inr (JObj d2)"
    and "try_request r3 = Inr (JObj d3)"
    and "py_iter (dict_get d1 ''studies'' (JArr [])) = Inr s1"
    and "py_iter (dict_get d2 ''studies'' (JArr [])) = Inr s2"
    and "py_iter (dict_get d3 ''studies'' (JArr [])) = Inr s3"
    and "map_of d1 ''nextPageToken'' = Some p1" and "truthy p1"
    and "map_of d2 ''nextPageToken'' = Some p2" and "truthy p2"
    and "map_of d3 ''nextPageToken'' = None"
    and "3 \<le> max_pages"
  shows "length (requests (fetch_all_trials fmt (canned [r1, r2, r3]) h q max_pages page_size)) = 3 \<and>
         map snd (requests (fetch_all_trials fmt (canned [r1, r2, r3]) h q max_pages page_size)) =
           [r1, r2, r3] \<and>
         map (\<lambda>x. map_of (fst x) ''pageToken'')
             (tl (requests (fetch_all_trials fmt (canned [r1, r2, r3]) h q max_pages page_size))) =
           [Some p1, Some p2] \<and>
         returned (fetch_all_trials fmt (canned [r1, r2, r3]) h q max_pages page_size) =
           Inr (List.map_filter (extract_study_data fmt) s1 @
                List.map_filter (extract_study_data fmt) s2 @
                List.map_filter (extract_study_data fmt) s3)"
proof -
  let ?srv = "canned [r1, r2, r3]"
  let ?l = "length h"
  let ?q0 = "AList.update ''pageSize'' (JNum page_size) (h ! q)"
  let ?q1 = "AList.update ''pageToken'' p1 ?q0"
  let ?q2 = "AList.update ''pageToken'' p2 ?q1"
  let ?e1 = "List.map_filter (extract_study_data fmt) s1"
  let ?e2 = "List.map_filter (extract_study_data fmt) s2"
  let ?e3 = "List.map_filter (extract_study_data fmt) s3"
  let ?st0 = "\<lparr>heap = h @ [?q0], all_extracted_studies = [], exchanges = []\<rparr>"
  let ?st1 = "\<lparr>heap = h @ [?q1], all_extracted_studies = ?e1, exchanges = [(?q0, r1)]\<rparr>"
  let ?st2 = "\<lparr>heap = h @ [?q2], all_extracted_studies = ?e1 @ ?e2,
               exchanges = [(?q0, r1), (?q1, r2)]\<rparr>"
  let ?st3 = "\<lparr>heap = h @ [?q2], all_extracted_studies = ?e1 @ ?e2 @ ?e3,
               exchanges = [(?q0, r1), (?q1, r2), (?q2, r3)]\<rparr>"
  have t: "dict_get d1 ''nextPageToken'' JNull = p1" "dict_get d2 ''nextPageToken'' JNull = p2"
    "dict_get d3 ''nextPageToken'' JNull = JNull"
    using assms(7,9,11) by (simp_all add: dict_get_def)
  have a1: "try_request (?srv (length (exchanges ?st0)) (heap ?st0 ! ?l)) = Inr (JObj d1)"
    using assms(1) by (simp add: canned_def)
  have a2: "try_request (?srv (length (exchanges ?st1)) (heap ?st1 ! ?l)) = Inr (JObj d2)"
    using assms(2) by (simp add: canned_def)
  have a3: "try_request (?srv (length (exchanges ?st2)) (heap ?st2 ! ?l)) = Inr (JObj d3)"
    using assms(3) by (simp add: canned_def)
  have "fetch_loop fmt ?srv ?l max_pages 0 ?st0 = fetch_loop fmt ?srv ?l max_pages 1 ?st1"
    using fetch_loop_page[where srv = ?srv and st = ?st0 and l = ?l and d = d1 and studies = s1
        and fmt = fmt and current_page = 0 and max_pages = max_pages, OF _ a1 assms(4)]
      assms(8,12) t
    by (simp add: canned_def)
  also have "\<dots> = fetch_loop fmt ?srv ?l max_pages 2 ?st2"
    using fetch_loop_page[where srv = ?srv and st = ?st1 and l = ?l and d = d2 and studies = s2
        and fmt = fmt and current_page = 1 and max_pages = max_pages, OF _ a2 assms(5)]
      assms(10,12) t
    by (simp add: canned_def)
  also have "\<dots> = (None, ?st3)"
    using fetch_loop_page[where srv = ?srv and st = ?st2 and l = ?l and d = d3 and studies = s3
        and fmt = fmt and current_page = 2 and max_pages = max_pages, OF _ a3 assms(6)]
      assms(12) t
    by (simp add: canned_def)
  finally have "fetch_all_trials fmt ?srv h q max_pages page_size =
      \<lparr>returned = Inr (?e1 @ ?e2 @ ?e3), final_heap = h @ [?q2],
       requests = [(?q0, r1), (?q1, r2), (?q2, r3)]\<rparr>"
    by (simp add: fetch_all_trials_def Let_def)
  then show ?thesis
    by (simp add: update_conv')
qed

theorem three_pages_concatenated_witness:
  "length (requests (fetch_all_trials str_example
      (canned [Response 200 (Decoded page_one), Response 200 (Decoded page_two),
               Response 200 (Decoded page_three)]) [query_example] 0 10 20)) = 3 \<and>
   returned (fetch_all_trials str_example
      (canned [Response 200 (Decoded page_one), Response 200 (Decoded page_two),
               Response 200 (Decoded page_three)]) [query_example] 0 10 20) =
     Inr [study_example_out, defaults_out, study_example_out]"
proof -
  have e: "List.map_filter (extract_study_data str_example) [study_example, study_broken] =
             [study_example_out]"
    "List.map_filter (extract_study_data str_example) [study_no_protocol] = [defaults_out]"
    "List.map_filter (extract_study_data str_example) [study_example] = [study_example_out]"
    by code_simp+
  have "length (requests (fetch_all_trials str_example
      (canned [Response 200 (Decoded page_one), Response 200 (Decoded page_two),
               Response 200 (Decoded page_three)]) [query_example] 0 10 20)) = 3 \<and>
    returned (fetch_all_trials str_example
      (canned [Response 200 (Decoded page_one), Response 200 (Decoded page_two),
               Response 200 (Decoded page_three)]) [query_example] 0 10 20) =
     Inr (List.map_filter (extract_study_data str_example) [study_example, study_broken] @
          List.map_filter (extract_study_data str_example) [study_no_protocol] @
          List.map_filter (extract_study_data str_example) [study_example])"
    using three_pages_concatenated[of "Response 200 (Decoded page_one)"
        "[(''studies'', JArr [study_example, study_broken]), (''nextPageToken'', JStr ''tok1'')]"
        "Response 200 (Decoded page_two)"
        "[(''studies'', JArr [study_no_protocol]), (''nextPageToken'', JStr ''tok2'')]"
        "Response 200 (Decoded page_three)"
        "[(''studies'', JArr [study_example])]"
        "[study_example, study_broken]" "[study_no_protocol]" "[study_example]"
        "JStr ''tok1''" "JStr ''tok2''" 10 str_example "[query_example]" 0 20]
    by (simp add: page_one_def page_two_def page_three_def raise_for_status_def dict_get_def)
  with e show ?thesis by simp
qed

text \<open>
  C4. With a page limit of 1 and a first page that carries a continuation token, the run
  issues exactly one request and returns the records extracted from that page only.
\<close>

theorem one_page_limit_stops:
  assumes "try_request (srv 0 (AList.update ''pageSize'' (JNum page_size) (h ! q))) = Inr (JObj d)"
    and "py_iter (dict_get d ''studies'' (JArr [])) = Inr studies"
    and "map_of d ''nextPageToken'' = Some token"
  shows "length (requests (fetch_all_trials fmt srv h q 1 page_size)) = 1 \<and>
         returned (fetch_all_trials fmt srv h q 1 page_size) =
           Inr (List.map_filter (extract_study_data fmt) studies)"
proof -
  let ?l = "length h"
  let ?q0 = "AList.update ''pageSize'' (JNum page_size) (h ! q)"
  let ?st0 = "\<lparr>heap = h @ [?q0], all_extracted_studies = [], exchanges = []\<rparr>"
  let ?st1 = "\<lparr>heap = h @ [AList.update ''pageToken'' token ?q0],
               all_extracted_studies = List.map_filter (extract_study_data fmt) studies,
               exchanges = [(?q0, srv 0 ?q0)]\<rparr>"
  let ?st1' = "\<lparr>heap = h @ [?q0],
               all_extracted_studies = List.map_filter (extract_study_data fmt) studies,
               exchanges = [(?q0, srv 0 ?q0)]\<rparr>"
  have t: "dict_get d ''nextPageToken'' JNull = token"
    using assms(3) by (simp add: dict_get_def)
  have a: "try_request (srv (length (exchanges ?st0)) (heap ?st0 ! ?l)) = Inr (JObj d)"
    using assms(1) by simp
  have step: "fetch_loop fmt srv ?l 1 0 ?st0 =
      (if truthy token then fetch_loop fmt srv ?l 1 1 ?st1 else (None, ?st1'))"
    using fetch_loop_page[where srv = srv and st = ?st0 and l = ?l and d = d and studies = studies
        and fmt = fmt and current_page = 0 and max_pages = 1, OF _ a assms(2)] t
    by simp
  have "fetch_loop fmt srv ?l 1 1 ?st1 = (None, ?st1)"
    by (rule fetch_loop_limit) simp
  with step show ?thesis
    by (simp add: fetch_all_trials_def Let_def)
qed

theorem one_page_limit_stops_witness:
  "length (requests (fetch_all_trials str_example
      (canned [Response 200 (Decoded page_two), Response 200 (Decoded page_three)])
      [query_example] 0 1 20)) = 1 \<and>
   returned (fetch_all_trials str_example
      (canned [Response 200 (Decoded page_two), Response 200 (Decoded page_three)])
      [query_example] 0 1 20) = Inr [defaults_out]"
proof -
  have e: "List.map_filter (extract_study_data str_example) [study_no_protocol] = [defaults_out]"
    by code_simp
  have "length (requests (fetch_all_trials str_example
      (canned [Response 200 (Decoded page_two), Response 200 (Decoded page_three)])
      [query_example] 0 1 20)) = 1 \<and>
    returned (fetch_all_trials str_example
      (canned [Response 200 (Decoded page_two), Response 200 (Decoded page_three)])
      [query_example] 0 1 20) =
      Inr (List.map_filter (extract_study_data str_example) [study_no_protocol])"
    using one_page_limit_stops[where
        srv = "canned [Response 200 (Decoded page_two), Response 200 (Decoded page_three)]"
        and page_size = 20 and h = "[query_example]" and q = 0
        and d = "[(''studies'', JArr [study_no_protocol]), (''nextPageToken'', JStr ''tok2'')]"
        and studies = "[study_no_protocol]" and token = "JStr ''tok2''" and fmt = str_example]
    by (simp add: canned_def page_two_def raise_for_status_def dict_get_def)
  with e show ?thesis by simp
qed

text \<open>
  C10. When the page limit is not reached and the page received has an empty studies list,
  or no studies key, and carries a continuation token, the loop is not left: the rest of
  the run is the loop at the next page, entered with the same accumulated records, the
  request logged and the token stored in the working query; and unless the page limit
  is reached then, a further request is issued.
\<close>

theorem empty_page_continues:
  assumes "current_page + 1 \<le> max_pages"
    and "try_request (srv (length (exchanges st)) (heap st ! l)) = Inr (JObj d)"
    and "dict_get d ''studies'' (JArr []) = JArr []"
    and "map_of d ''nextPageToken'' = Some token" and "truthy token"
  shows "fetch_loop fmt srv l max_pages current_page st =
         fetch_loop fmt srv l max_pages (current_page + 1)
           (st\<lparr>exchanges := exchanges st @ [(heap st ! l, srv (length (exchanges st)) (heap st ! l))],
              heap := (heap st)[l := AList.update ''pageToken'' token (heap st ! l)]\<rparr>) \<and>
         (current_page + 2 \<le> max_pages \<longrightarrow>
            length (exchanges st) + 2 \<le>
              length (exchanges (snd (fetch_loop fmt srv l max_pages current_page st))))"
proof -
  let ?st' = "st\<lparr>exchanges := exchanges st @ [(heap st ! l, srv (length (exchanges st)) (heap st ! l))],
              heap := (heap st)[l := AList.update ''pageToken'' token (heap st ! l)]\<rparr>"
  have t: "dict_get d ''nextPageToken'' JNull = token"
    using assms(4) by (simp add: dict_get_def)
  have s: "py_iter (dict_get d ''studies'' (JArr [])) = Inr []"
    using assms(3) by simp
  have eq: "fetch_loop fmt srv l max_pages current_page st =
            fetch_loop fmt srv l max_pages (current_page + 1) ?st'"
    using fetch_loop_page[where srv = srv and st = st and l = l and d = d and studies = "[]"
        and fmt = fmt and current_page = current_page and max_pages = max_pages,
        OF assms(1,2) s]
      assms(5) t
    by simp
  have "length (exchanges ?st') + 1 \<le>
          length (exchanges (snd (fetch_loop fmt srv l max_pages (current_page + 1) ?st')))"
    if "current_page + 2 \<le> max_pages"
    using that by (intro fetch_loop_requests_once) simp
  with eq show ?thesis by simp
qed

theorem empty_page_continues_witness:
  "fetch_loop str_example (canned [Response 200 (Decoded page_empty), Response 200 (Decoded page_three)])
     0 10 0 \<lparr>heap = [query_example], all_extracted_studies = [], exchanges = []\<rparr> =
   fetch_loop str_example (canned [Response 200 (Decoded page_empty), Response 200 (Decoded page_three)])
     0 10 1 \<lparr>heap = [query_example_next],
             all_extracted_studies = [],
             exchanges = [(query_example, Response 200 (Decoded page_empty))]\<rparr> \<and>
   returned (fetch_all_trials str_example
     (canned [Response 200 (Decoded page_empty), Response 200 (Decoded page_three)])
     [query_example] 0 10 20) = Inr [study_example_out]"
proof -
  have r: "returned (fetch_all_trials str_example
     (canned [Response 200 (Decoded page_empty), Response 200 (Decoded page_three)])
     [query_example] 0 10 20) = Inr [study_example_out]"
    by code_simp
  from empty_page_continues[where current_page = 0 and max_pages = 10
      and srv = "canned [Response 200 (Decoded page_empty), Response 200 (Decoded page_three)]"
      and st = "\<lparr>heap = [query_example], all_extracted_studies = [], exchanges = []\<rparr>"
      and l = 0 and d = "[(''studies'', JArr []), (''nextPageToken'', JStr ''tok0'')]"
      and token = "JStr ''tok0''" and fmt = str_example]
    r show ?thesis
    by (simp add: canned_def page_empty_def raise_for_status_def dict_get_def query_example_def
        query_example_next_def)
qed

end
